theory Spec2Isabelle
  imports Complex_Main "HOL-Library.Sublist" "HOL-Library.AList"
begin

section \<open>Errors\<close>

text \<open>
  The C++ sources fail in four ways: an \<^verbatim>\<open>assert\<close> that does not hold, the two
  exceptions of the JSON library (\<^verbatim>\<open>json::at\<close> on a missing key, and an access or
  conversion on a JSON value of the wrong kind), and the dereference of a null pointer.
  Each is a value of the type \<open>error\<close>; a function that can fail returns \<open>error + 'a\<close>.
\<close>

datatype error =
    AssertionFailed
  | json_out_of_range string
  | json_type_error
  | NullPointerDereference

definition bindE :: "error + 'a \<Rightarrow> ('a \<Rightarrow> error + 'b) \<Rightarrow> error + 'b" where
  "bindE m k = (case m of Inl e \<Rightarrow> Inl e | Inr a \<Rightarrow> k a)"

section \<open>Dense vectors (Eigen::VectorXd)\<close>

text \<open>
  A \<^verbatim>\<open>VectorXd\<close> is a list of coefficients. The type \<^verbatim>\<open>double\<close> is idealised as
  \<^typ>\<open>real\<close>. The coefficient-wise operations of Eigen are defined on operands of equal
  size; on such operands the definitions below are Eigen's.
\<close>

type_synonym VectorXd = "real list"

definition vadd :: "VectorXd \<Rightarrow> VectorXd \<Rightarrow> VectorXd" where
  "vadd x y = map2 (+) x y"

definition vsub :: "VectorXd \<Rightarrow> VectorXd \<Rightarrow> VectorXd" where
  "vsub x y = map2 (-) x y"

definition smul :: "real \<Rightarrow> VectorXd \<Rightarrow> VectorXd" where
  "smul c x = map (\<lambda>a. c * a) x"

definition sdiv :: "VectorXd \<Rightarrow> real \<Rightarrow> VectorXd" where
  "sdiv x c = map (\<lambda>a. a / c) x"

section \<open>DynamicalSystem\<close>

datatype IntegrationMethod = EULER | RUNGE_KUTTA

text \<open>
  The members of the class. A name of the logic cannot end in an underscore, so the member
  \<^verbatim>\<open>dim_\<close> of the source is the field \<open>dim_m\<close> here, and so on for every member.
\<close>

record DynamicalSystem =
  dim_m :: int
  dim_orig_m :: int
  tau_m :: real
  initial_state_m :: VectorXd
  attractor_state_m :: VectorXd
  integration_method_m :: IntegrationMethod

text \<open>The constructor: the members are initialised, then the two assertions are checked.\<close>

definition DynamicalSystem_ctor ::
  "int \<Rightarrow> real \<Rightarrow> VectorXd \<Rightarrow> VectorXd \<Rightarrow> error + DynamicalSystem" where
  "DynamicalSystem_ctor order tau initial_state attractor_state =
     (let obj = \<lparr> dim_m = int (length initial_state) * order,
                  dim_orig_m = int (length initial_state),
                  tau_m = tau,
                  initial_state_m = initial_state,
                  attractor_state_m = attractor_state,
                  integration_method_m = RUNGE_KUTTA \<rparr>
      in if \<not> (order = 1 \<or> order = 2) then Inl AssertionFailed
         else if \<not> (length initial_state = length attractor_state) then Inl AssertionFailed
         else Inr obj)"

text \<open>
  \<^verbatim>\<open>differentialEquation\<close> is a pure virtual method of the base class. The integration
  functions take it as the parameter \<open>f\<close>: the state goes in, the rates of change come out.
\<close>

definition integrateStepEuler ::
  "(VectorXd \<Rightarrow> VectorXd) \<Rightarrow> real \<Rightarrow> VectorXd \<Rightarrow> VectorXd \<times> VectorXd" where
  "integrateStepEuler f dt x =
     (let xd_updated = f x;
          x_updated = vadd x (smul dt xd_updated)
      in (x_updated, xd_updated))"

definition integrateStepRungeKutta ::
  "(VectorXd \<Rightarrow> VectorXd) \<Rightarrow> real \<Rightarrow> VectorXd \<Rightarrow> VectorXd \<times> VectorXd" where
  "integrateStepRungeKutta f dt x =
     (let k1 = f x;
          input_k2 = vadd x (smul (dt * 0.5) k1);
          k2 = f input_k2;
          input_k3 = vadd x (smul (dt * 0.5) k2);
          k3 = f input_k3;
          input_k4 = vadd x (smul dt k3);
          k4 = f input_k4;
          x_updated = vadd x (sdiv (smul dt (vadd (vadd k1 (smul 2.0 (vadd k2 k3))) k4)) 6.0);
          xd_updated = f x_updated
      in (x_updated, xd_updated))"

definition integrateStep ::
  "'a DynamicalSystem_scheme \<Rightarrow> (VectorXd \<Rightarrow> VectorXd) \<Rightarrow> real \<Rightarrow> VectorXd
     \<Rightarrow> error + (VectorXd \<times> VectorXd)" where
  "integrateStep sys f dt x =
     (if \<not> (dt > 0.0) then Inl AssertionFailed
      else if \<not> (int (length x) = dim_m sys) then Inl AssertionFailed
      else if integration_method_m sys = RUNGE_KUTTA
        then Inr (integrateStepRungeKutta f dt x)
        else Inr (integrateStepEuler f dt x))"

section \<open>ExponentialSystem\<close>

text \<open>
  The class adds \<open>alpha_\<close> to the base class. Its scratch vector
  \<^verbatim>\<open>attractor_state_prealloc_\<close> is written and then read inside one call of
  \<^verbatim>\<open>differentialEquation\<close>; it carries nothing from one call to the next and is a
  local value here.
\<close>

record ExponentialSystem = DynamicalSystem +
  alpha_m :: real

definition ExponentialSystem_ctor ::
  "real \<Rightarrow> VectorXd \<Rightarrow> VectorXd \<Rightarrow> real \<Rightarrow> error + ExponentialSystem" where
  "ExponentialSystem_ctor tau y_init y_attr alpha =
     bindE (DynamicalSystem_ctor 1 tau y_init y_attr)
       (\<lambda>base. Inr (DynamicalSystem.extend base \<lparr> alpha_m = alpha \<rparr>))"

definition differentialEquation :: "ExponentialSystem \<Rightarrow> VectorXd \<Rightarrow> VectorXd" where
  "differentialEquation sys x =
     (let attractor_state_prealloc = attractor_state_m sys
      in sdiv (smul (alpha_m sys) (vsub attractor_state_prealloc x)) (tau_m sys))"

definition example_ExponentialSystem :: "IntegrationMethod \<Rightarrow> ExponentialSystem" where
  \<comment> \<open>The system of the test: \<open>alpha = 1\<close>, \<open>tau = 1\<close>, \<open>y_init = [1]\<close>, \<open>y_attr = [0]\<close>.\<close>
  "example_ExponentialSystem im =
     \<lparr> dim_m = 1, dim_orig_m = 1, tau_m = 1, initial_state_m = [1], attractor_state_m = [0],
       integration_method_m = im, alpha_m = 1 \<rparr>"

section \<open>Dense matrices (Eigen::MatrixXd)\<close>

text \<open>
  A matrix has its two dimensions and its coefficients, one list for each row. The
  dimensions are stored, since a matrix with no row still has a number of columns.
\<close>

record MatrixXd =
  rows :: nat
  cols :: nat
  coeffs :: "real list list"

definition coeff :: "MatrixXd \<Rightarrow> nat \<Rightarrow> nat \<Rightarrow> real" where
  "coeff m i j = coeffs m ! i ! j"

definition rowvector :: "VectorXd \<Rightarrow> MatrixXd" where
  \<comment> \<open>\<^verbatim>\<open>v.transpose()\<close>: the vector as a matrix of one row\<close>
  "rowvector v = \<lparr> rows = 1, cols = length v, coeffs = [v] \<rparr>"

definition colvector :: "VectorXd \<Rightarrow> MatrixXd" where
  \<comment> \<open>the vector as a matrix of one column\<close>
  "colvector v = \<lparr> rows = length v, cols = 1, coeffs = map (\<lambda>a. [a]) v \<rparr>"

definition replicateM :: "MatrixXd \<Rightarrow> nat \<Rightarrow> nat \<Rightarrow> MatrixXd" where
  \<comment> \<open>\<^verbatim>\<open>m.replicate(rowFactor, colFactor)\<close>: the matrix tiled down and across\<close>
  "replicateM m rowFactor colFactor =
     \<lparr> rows = rows m * rowFactor, cols = cols m * colFactor,
       coeffs = concat (replicate rowFactor
                  (map (\<lambda>r. concat (replicate colFactor r)) (coeffs m))) \<rparr>"

definition cwiseProduct :: "MatrixXd \<Rightarrow> MatrixXd \<Rightarrow> MatrixXd" where
  \<comment> \<open>\<^verbatim>\<open>a.array() * b.array()\<close>, on operands of one shape\<close>
  "cwiseProduct a b =
     \<lparr> rows = rows a, cols = cols a, coeffs = map2 (map2 (*)) (coeffs a) (coeffs b) \<rparr>"

definition madd :: "MatrixXd \<Rightarrow> MatrixXd \<Rightarrow> MatrixXd" where
  \<comment> \<open>\<^verbatim>\<open>a + b\<close>, on operands of one shape\<close>
  "madd a b =
     \<lparr> rows = rows a, cols = cols a, coeffs = map2 (map2 (+)) (coeffs a) (coeffs b) \<rparr>"

definition transposeM :: "MatrixXd \<Rightarrow> MatrixXd" where
  "transposeM m =
     \<lparr> rows = cols m, cols = rows m,
       coeffs = map (\<lambda>j. map (\<lambda>i. coeff m i j) [0..<rows m]) [0..<cols m] \<rparr>"

subsection \<open>The closed-form solution of the exponential system\<close>

text \<open>
  \<open>xs\<close> and \<open>xds\<close> are the caller's output matrices. Only the shape of \<open>xs\<close> is read,
  before the two matrices are resized to \<open>T \<times> dim\<close>; every coefficient is then overwritten
  by the assignments, whose right-hand sides have that shape.
\<close>

definition analyticalSolution ::
  "ExponentialSystem \<Rightarrow> VectorXd \<Rightarrow> MatrixXd \<Rightarrow> MatrixXd \<Rightarrow> error + (MatrixXd \<times> MatrixXd)" where
  "analyticalSolution sys ts xs xds =
     (let T = length ts in
      if \<not> (T > 0) then Inl AssertionFailed
      else
        let caller_expects_transposed = (int (rows xs) = dim_m sys \<and> cols xs = T);
            val_range = vsub (initial_state_m sys) (attractor_state_m sys);
            exp_term = sdiv (smul (- alpha_m sys) ts) (tau_m sys);
            exp_term = map exp exp_term;
            pos_scale = exp_term;
            vel_scale = smul (- (alpha_m sys / tau_m sys)) exp_term;
            xs = cwiseProduct (replicateM (rowvector val_range) T 1)
                              (replicateM (colvector pos_scale) 1 (nat (dim_m sys)));
            xs = madd xs (replicateM (rowvector (attractor_state_m sys)) T 1);
            xds = cwiseProduct (replicateM (rowvector val_range) T 1)
                               (replicateM (colvector vel_scale) 1 (nat (dim_m sys)))
        in if caller_expects_transposed
           then Inr (transposeM xs, transposeM xds)
           else Inr (xs, xds))"

section \<open>JSON documents\<close>

text \<open>
  The values of the JSON library. An object is a list of key-value pairs, looked up with
  \<^const>\<open>map_of\<close> and written with \<^const>\<open>AList.update\<close>, so a key occurs once.
\<close>

datatype json =
    JNull
  | JBool bool
  | JInt int
  | JFloat real
  | JString string
  | JArray "json list"
  | JObject "(string \<times> json) list"

definition json_at :: "string \<Rightarrow> json \<Rightarrow> error + json" where
  \<comment> \<open>\<^verbatim>\<open>j.at(key)\<close>: throws on a value that is no object and on a missing key\<close>
  "json_at key j =
     (case j of
        JObject kvs \<Rightarrow>
          (case map_of kvs key of None \<Rightarrow> Inl (json_out_of_range key) | Some v \<Rightarrow> Inr v)
      | _ \<Rightarrow> Inl json_type_error)"

definition json_set :: "string \<Rightarrow> json \<Rightarrow> json \<Rightarrow> error + json" where
  \<comment> \<open>\<^verbatim>\<open>j[key] = v\<close>: a null value becomes an object first\<close>
  "json_set key v j =
     (case j of
        JNull \<Rightarrow> Inr (JObject [(key, v)])
      | JObject kvs \<Rightarrow> Inr (JObject (AList.update key v kvs))
      | _ \<Rightarrow> Inl json_type_error)"

definition json_index :: "string \<Rightarrow> json \<Rightarrow> error + json" where
  \<comment> \<open>\<^verbatim>\<open>j[key]\<close> read on a value that is not const: a missing key reads as null\<close>
  "json_index key j =
     (case j of
        JNull \<Rightarrow> Inr JNull
      | JObject kvs \<Rightarrow> Inr (case map_of kvs key of None \<Rightarrow> JNull | Some v \<Rightarrow> v)
      | _ \<Rightarrow> Inl json_type_error)"

definition json_contains :: "string \<Rightarrow> json \<Rightarrow> bool" where
  \<comment> \<open>\<^verbatim>\<open>j.contains(key)\<close>: false on a value that is no object\<close>
  "json_contains key j =
     (case j of JObject kvs \<Rightarrow> map_of kvs key \<noteq> None | _ \<Rightarrow> False)"

definition json_get_string :: "json \<Rightarrow> error + string" where
  \<comment> \<open>\<^verbatim>\<open>j.get<string>()\<close>\<close>
  "json_get_string j = (case j of JString s \<Rightarrow> Inr s | _ \<Rightarrow> Inl json_type_error)"

subsection \<open>Numbers, vectors and matrices in a document\<close>

definition from_json_to_double :: "json \<Rightarrow> error + real" where
  \<comment> \<open>Modelled from the spec: \<^verbatim>\<open>from_json_to_double\<close> of the header
      \<^verbatim>\<open>eigenutils/eigen_json.hpp\<close>, which is not among the sources. The document
      contract gives \<^verbatim>\<open>"tau_": float\<close>: a JSON number is read as a double.\<close>
  "from_json_to_double j =
     (case j of JFloat r \<Rightarrow> Inr r | JInt i \<Rightarrow> Inr (of_int i) | _ \<Rightarrow> Inl json_type_error)"

fun doubles_from_json :: "json list \<Rightarrow> error + real list" where
  "doubles_from_json [] = Inr []"
| "doubles_from_json (j # js) =
     bindE (from_json_to_double j) (\<lambda>r. bindE (doubles_from_json js) (\<lambda>rs. Inr (r # rs)))"

definition VectorXd_from_json :: "json \<Rightarrow> error + VectorXd" where
  \<comment> \<open>Modelled from the spec: the conversion of a JSON value to a vector, of the header
      \<^verbatim>\<open>eigenutils/eigen_json.hpp\<close>, which is not among the sources. The document
      contract gives \<^verbatim>\<open>"values": [float, ...]\<close>: an array of numbers is read as the vector
      of these numbers.\<close>
  "VectorXd_from_json j =
     (case j of JArray js \<Rightarrow> doubles_from_json js | _ \<Rightarrow> Inl json_type_error)"

definition VectorXd_to_json :: "VectorXd \<Rightarrow> json" where
  \<comment> \<open>Modelled from the spec: the conversion of a vector to a JSON value, of the header
      \<^verbatim>\<open>eigenutils/eigen_json.hpp\<close>, which is not among the sources. The document
      contract gives \<^verbatim>\<open>"initial_state_": {"values": [float, ...]}\<close>.\<close>
  "VectorXd_to_json v = JObject [(''values'', JArray (map JFloat v))]"

definition MatrixXd_to_json :: "MatrixXd \<Rightarrow> json" where
  \<comment> \<open>Modelled from the spec: the conversion of a matrix to a JSON value, of the header
      \<^verbatim>\<open>eigen/eigen_json.hpp\<close>, which is not among the sources. The document contract
      gives \<^verbatim>\<open>"centers": {"values": [[float,...], ...]}\<close>: the rows of the matrix, each an
      array of numbers.\<close>
  "MatrixXd_to_json m =
     JObject [(''values'', JArray (map (\<lambda>r. JArray (map JFloat r)) (coeffs m)))]"

fun rows_from_json :: "json list \<Rightarrow> error + real list list" where
  "rows_from_json [] = Inr []"
| "rows_from_json (j # js) =
     bindE (VectorXd_from_json j) (\<lambda>r. bindE (rows_from_json js) (\<lambda>rs. Inr (r # rs)))"

definition MatrixXd_from_json :: "json \<Rightarrow> error + MatrixXd" where
  \<comment> \<open>Modelled from the spec: the conversion of a JSON value to a matrix, of the header
      \<^verbatim>\<open>eigen/eigen_json.hpp\<close>, which is not among the sources. The document contract
      gives \<^verbatim>\<open>"values": [[float,...], ...]\<close> for the centers and the widths, read as the
      rows of the matrix, and \<^verbatim>\<open>"values": [float, ...]\<close> for the weights, read as a
      single column.\<close>
  "MatrixXd_from_json j =
     (case j of
        JArray (JArray r # js) \<Rightarrow>
          bindE (rows_from_json (JArray r # js))
            (\<lambda>rs. Inr \<lparr> rows = length rs, cols = length (hd rs), coeffs = rs \<rparr>)
      | JArray js \<Rightarrow> bindE (doubles_from_json js) (\<lambda>v. Inr (colvector v))
      | _ \<Rightarrow> Inl json_type_error)"

section \<open>Dynamical systems as documents\<close>

definition to_json_base :: "'a DynamicalSystem_scheme \<Rightarrow> json \<Rightarrow> error + json" where
  "to_json_base sys j =
     bindE (json_set ''dim_'' (JInt (dim_m sys)) j) (\<lambda>j.
     bindE (json_set ''dim_orig_'' (JInt (dim_orig_m sys)) j) (\<lambda>j.
     bindE (json_set ''tau_'' (JFloat (tau_m sys)) j) (\<lambda>j.
     bindE (json_set ''initial_state_'' (VectorXd_to_json (initial_state_m sys)) j) (\<lambda>j.
     bindE (json_set ''attractor_state_'' (VectorXd_to_json (attractor_state_m sys)) j) (\<lambda>j.
     bindE (json_set ''integration_method_''
              (JString (if integration_method_m sys = EULER then ''EULER'' else ''RUNGE_KUTTA'')) j)
       (\<lambda>j.
     let c = ''DynamicalSystem''
     in json_set ''py/object'' (JString (''dynamicalsystems.'' @ c @ ''.'' @ c)) j))))))"

definition to_json_helper :: "ExponentialSystem \<Rightarrow> json \<Rightarrow> error + json" where
  \<comment> \<open>\<^verbatim>\<open>ExponentialSystem::to_json_helper\<close>\<close>
  "to_json_helper sys j =
     bindE (to_json_base sys j) (\<lambda>j.
     bindE (json_set ''alpha_'' (JFloat (alpha_m sys)) j) (\<lambda>j.
     let c = ''ExponentialSystem''
     in json_set ''py/object'' (JString (''dynamicalsystems.'' @ c @ ''.'' @ c)) j))"

definition from_json_ExponentialSystem :: "json \<Rightarrow> error + ExponentialSystem" where
  \<comment> \<open>\<^verbatim>\<open>from_json(const nlohmann::json&, ExponentialSystem*&)\<close>\<close>
  "from_json_ExponentialSystem j =
     bindE (bindE (json_at ''tau_'' j) from_json_to_double) (\<lambda>tau.
     bindE (bindE (json_at ''alpha_'' j) from_json_to_double) (\<lambda>alpha.
     bindE (bindE (bindE (json_at ''initial_state_'' j) (json_at ''values'')) VectorXd_from_json)
       (\<lambda>y_init.
     bindE (bindE (bindE (json_at ''attractor_state_'' j) (json_at ''values'')) VectorXd_from_json)
       (\<lambda>y_attr.
     ExponentialSystem_ctor tau y_init y_attr alpha))))"

subsection \<open>Polymorphic deserialization\<close>

fun string_find :: "string \<Rightarrow> string \<Rightarrow> nat option" where
  \<comment> \<open>\<^verbatim>\<open>s.find(pat)\<close>: the first position where \<open>pat\<close> occurs in \<open>s\<close>; \<open>None\<close> is
      \<^verbatim>\<open>string::npos\<close>\<close>
  "string_find [] pat = (if pat = [] then Some 0 else None)"
| "string_find (c # s) pat =
     (if prefix pat (c # s) then Some 0 else map_option Suc (string_find s pat))"

text \<open>
  The result of the polymorphic \<^verbatim>\<open>from_json\<close> is a pointer to an object of one of the four
  classes, or the null pointer (\<open>None\<close>). The sources hold the deserializer of
  ExponentialSystem only; those of the three other classes are the parameters \<open>from_json_Sigmoid\<close>,
  \<open>from_json_SpringDamper\<close> and \<open>from_json_Time\<close>, and the objects they build have the types
  \<open>'s\<close>, \<open>'d\<close> and \<open>'t\<close>. The second component of the result is the text written to
  \<^verbatim>\<open>cerr\<close>; \<open>file\<close> is the value of the macro \<^verbatim>\<open>__FILE__\<close>.
\<close>

datatype ('s, 'd, 't) DynamicalSystemPtr =
    ExponentialSystemPtr ExponentialSystem
  | SigmoidSystemPtr 's
  | SpringDamperSystemPtr 'd
  | TimeSystemPtr 't

definition from_json_DynamicalSystem ::
  "(json \<Rightarrow> error + 's) \<Rightarrow> (json \<Rightarrow> error + 'd) \<Rightarrow> (json \<Rightarrow> error + 't) \<Rightarrow> string \<Rightarrow> json
     \<Rightarrow> error + (('s, 'd, 't) DynamicalSystemPtr option \<times> string)" where
  "from_json_DynamicalSystem from_json_Sigmoid from_json_SpringDamper from_json_Time file j =
     bindE (bindE (json_at ''py/object'' j) json_get_string) (\<lambda>class_name.
       if string_find class_name ''ExponentialSystem'' \<noteq> None then
         bindE (from_json_ExponentialSystem j) (\<lambda>obj. Inr (Some (ExponentialSystemPtr obj), []))
       else if string_find class_name ''SigmoidSystem'' \<noteq> None then
         bindE (from_json_Sigmoid j) (\<lambda>obj. Inr (Some (SigmoidSystemPtr obj), []))
       else if string_find class_name ''SpringDamperSystem'' \<noteq> None then
         bindE (from_json_SpringDamper j) (\<lambda>obj. Inr (Some (SpringDamperSystemPtr obj), []))
       else if string_find class_name ''TimeSystem'' \<noteq> None then
         bindE (from_json_Time j) (\<lambda>obj. Inr (Some (TimeSystemPtr obj), []))
       else
         Inr (None, file @ '':'' @ ''153'' @ '':'' @ ''Unknown DynamicalSystem: '' @ class_name
                    @ [CHR 0x0A]))"

section \<open>The radial basis function network\<close>

subsection \<open>Kernel activations\<close>

definition activations :: "MatrixXd \<Rightarrow> MatrixXd \<Rightarrow> MatrixXd \<Rightarrow> bool \<Rightarrow> MatrixXd" where
  \<comment> \<open>Modelled from the spec: \<^verbatim>\<open>BasisFunction::Gaussian::activations\<close> of the header
      \<^verbatim>\<open>functionapproximators/BasisFunction.hpp\<close>, which is not among the sources. The
      result has a row for each row of \<open>inputs\<close> and a column for each basis function, and
      \<open>activationMatrix[t][b] = exp(-0.5 \<Sum>d ((inputs[t][d] - centers[b][d]) / widths[b][d])\<^sup>2)\<close>;
      with \<open>normalized\<close> each row is divided by its sum. The spec gives no formula for the
      asymmetric kernels, and \<^verbatim>\<open>predict\<close> asks for the symmetric ones, so the last flag
      of the source is left out.\<close>
  "activations centers widths inputs normalized =
     (let act = \<lparr> rows = rows inputs, cols = rows centers,
                  coeffs = map (\<lambda>t. map (\<lambda>b.
                      exp (- 0.5 * (\<Sum>d \<leftarrow> [0..<cols centers].
                        ((coeff inputs t d - coeff centers b d) / coeff widths b d)\<^sup>2)))
                    [0..<rows centers]) [0..<rows inputs] \<rparr>
      in if normalized
         then act \<lparr> coeffs := map (\<lambda>r. map (\<lambda>a. a / sum_list r) r) (coeffs act) \<rparr>
         else act)"

subsection \<open>FunctionApproximatorRBFN, holding its matrices\<close>

text \<open>
  The scratch matrix \<^verbatim>\<open>activations_one_prealloc_\<close> is overwritten by each call of
  \<^verbatim>\<open>predict\<close> before it is read; it is a local value here.
\<close>

record FunctionApproximatorRBFN =
  n_basis_functions_m :: int
  centers_m :: MatrixXd
  widths_m :: MatrixXd
  weights_m :: MatrixXd

definition FunctionApproximatorRBFN_ctor ::
  "MatrixXd \<Rightarrow> MatrixXd \<Rightarrow> MatrixXd \<Rightarrow> error + FunctionApproximatorRBFN" where
  "FunctionApproximatorRBFN_ctor centers widths weights =
     (let obj = \<lparr> n_basis_functions_m = int (rows centers),
                  centers_m = centers, widths_m = widths, weights_m = weights \<rparr>
      in if \<not> (n_basis_functions_m obj = int (rows (widths_m obj))) then Inl AssertionFailed
         else if \<not> (n_basis_functions_m obj = int (rows (weights_m obj))) then Inl AssertionFailed
         else if \<not> (cols centers = cols (widths_m obj)) then Inl AssertionFailed
         else if \<not> (cols (weights_m obj) = 1) then Inl AssertionFailed
         else Inr obj)"

definition coeff_linear :: "MatrixXd \<Rightarrow> nat \<Rightarrow> real" where
  \<comment> \<open>\<^verbatim>\<open>m(k)\<close>: the coefficient at position \<open>k\<close> of the column-major storage\<close>
  "coeff_linear m k = coeff m (k mod rows m) (k div rows m)"

definition scale_col :: "MatrixXd \<Rightarrow> nat \<Rightarrow> real \<Rightarrow> MatrixXd" where
  \<comment> \<open>\<^verbatim>\<open>m.col(b).array() *= w\<close>\<close>
  "scale_col m b w = m \<lparr> coeffs := map (\<lambda>r. r[b := r ! b * w]) (coeffs m) \<rparr>"

definition rowwise_sum :: "MatrixXd \<Rightarrow> MatrixXd" where
  \<comment> \<open>\<^verbatim>\<open>m.rowwise().sum()\<close>: the column of the sums of the rows\<close>
  "rowwise_sum m = \<lparr> rows = rows m, cols = 1, coeffs = map (\<lambda>r. [sum_list r]) (coeffs m) \<rparr>"

definition predict :: "FunctionApproximatorRBFN \<Rightarrow> MatrixXd \<Rightarrow> MatrixXd" where
  "predict fa inputs =
     (let n_time_steps = rows inputs in
      if n_time_steps = 1 then
        let activations_one_prealloc = activations (centers_m fa) (widths_m fa) inputs False;
            activations_one_prealloc =
              fold (\<lambda>b m. scale_col m b (coeff_linear (weights_m fa) b))
                [0..<nat (n_basis_functions_m fa)] activations_one_prealloc
        in rowwise_sum activations_one_prealloc
      else
        let activations_local = activations (centers_m fa) (widths_m fa) inputs False;
            activations_local =
              fold (\<lambda>b m. scale_col m b (coeff_linear (weights_m fa) b))
                [0..<nat (n_basis_functions_m fa)] activations_local
        in rowwise_sum activations_local)"

text \<open>
  The conversions between a matrix and a JSON value are those of the header
  \<^verbatim>\<open>eigen/eigen_json.hpp\<close>, which is not among the sources: the two functions below
  take them as the parameters \<open>to_json_MatrixXd\<close> and \<open>from_json_MatrixXd\<close>, which
  \<^const>\<open>MatrixXd_to_json\<close> and \<^const>\<open>MatrixXd_from_json\<close> instantiate.
\<close>

definition from_jsonpickle ::
  "(json \<Rightarrow> error + MatrixXd) \<Rightarrow> json \<Rightarrow> error + FunctionApproximatorRBFN" where
  "from_jsonpickle from_json_MatrixXd json =
     bindE (json_at ''_model_params'' json) (\<lambda>j.
     bindE (bindE (bindE (json_at ''centers'' j) (json_at ''values'')) from_json_MatrixXd)
       (\<lambda>centers.
     bindE (bindE (bindE (json_at ''widths'' j) (json_at ''values'')) from_json_MatrixXd)
       (\<lambda>widths.
     bindE (bindE (bindE (json_at ''weights'' j) (json_at ''values'')) from_json_MatrixXd)
       (\<lambda>weights.
     FunctionApproximatorRBFN_ctor centers widths weights))))"

definition to_json_RBFN ::
  "(MatrixXd \<Rightarrow> json) \<Rightarrow> FunctionApproximatorRBFN \<Rightarrow> json \<Rightarrow> error + json" where
  \<comment> \<open>\<^verbatim>\<open>to_json(nlohmann::json&, const FunctionApproximatorRBFN&)\<close>\<close>
  "to_json_RBFN to_json_MatrixXd obj j =
     bindE (json_set ''centers_'' (to_json_MatrixXd (centers_m obj)) j) (\<lambda>j.
     bindE (json_set ''widths_'' (to_json_MatrixXd (widths_m obj)) j) (\<lambda>j.
     bindE (json_set ''weights_'' (to_json_MatrixXd (weights_m obj)) j) (\<lambda>j.
     json_set ''py/object''
       (JString ''dynamicalsystems.ModelParametersRBFN.ModelParametersRBFN'') j)))"

definition example_RBFN :: FunctionApproximatorRBFN where
  \<comment> \<open>A network of one basis function in one dimension: center 0, width 1, weight 2.\<close>
  "example_RBFN =
     \<lparr> n_basis_functions_m = 1,
       centers_m = \<lparr> rows = 1, cols = 1, coeffs = [[0]] \<rparr>,
       widths_m = \<lparr> rows = 1, cols = 1, coeffs = [[1]] \<rparr>,
       weights_m = \<lparr> rows = 1, cols = 1, coeffs = [[2]] \<rparr> \<rparr>"

subsection \<open>FunctionApproximatorRBFN, holding a pointer to its model parameters\<close>

text \<open>
  The file \<^verbatim>\<open>src/functionapproximators/FunctionApproximatorRBFN.cpp\<close> has the class own a
  \<^verbatim>\<open>ModelParametersRBFN*\<close>. That class is not among the sources: its objects have the
  type \<open>'mp\<close>, a pointer to one is an \<open>'mp option\<close> (\<open>None\<close> is \<^verbatim>\<open>NULL\<close>), and its
  methods \<^verbatim>\<open>getNumberOfBasisFunctions\<close> and \<^verbatim>\<open>from_jsonpickle\<close> are parameters.
  \<^verbatim>\<open>preallocateMemory\<close> sizes three scratch buffers by the number of basis functions and
  leaves their coefficients uninitialised; the object records that number.
\<close>

record 'mp FunctionApproximatorRBFN_mp =
  model_parameters_m :: "'mp option"
  prealloc_n_basis_functions :: int

definition FunctionApproximatorRBFN_mp_ctor ::
  "('mp \<Rightarrow> int) \<Rightarrow> 'mp option \<Rightarrow> error + 'mp FunctionApproximatorRBFN_mp" where
  \<comment> \<open>\<^verbatim>\<open>model_parameters->getNumberOfBasisFunctions()\<close> dereferences the pointer\<close>
  "FunctionApproximatorRBFN_mp_ctor getNumberOfBasisFunctions model_parameters =
     (case model_parameters of
        None \<Rightarrow> Inl NullPointerDereference
      | Some mp \<Rightarrow>
          Inr \<lparr> model_parameters_m = model_parameters,
                prealloc_n_basis_functions = getNumberOfBasisFunctions mp \<rparr>)"

definition from_jsonpickle_mp ::
  "(json \<Rightarrow> error + 'mp option) \<Rightarrow> ('mp \<Rightarrow> int) \<Rightarrow> json
     \<Rightarrow> error + 'mp FunctionApproximatorRBFN_mp" where
  "from_jsonpickle_mp ModelParametersRBFN_from_jsonpickle getNumberOfBasisFunctions json =
     (let model = None
      in bindE (if json_contains ''_model_params'' json
                then bindE (json_index ''_model_params'' json) ModelParametersRBFN_from_jsonpickle
                else Inr model)
           (\<lambda>model. FunctionApproximatorRBFN_mp_ctor getNumberOfBasisFunctions model))"

section \<open>Properties of the integration step\<close>

lemma length_vadd: "length (vadd x y) = min (length x) (length y)"
  by (simp add: vadd_def)

lemma length_smul: "length (smul c x) = length x"
  by (simp add: smul_def)

lemma length_sdiv: "length (sdiv x c) = length x"
  by (simp add: sdiv_def)

lemma smul_vadd: "smul c (vadd a b) = vadd (smul c a) (smul c b)"
  by (intro nth_equalityI) (simp_all add: smul_def vadd_def algebra_simps)

lemma vadd_assoc: "vadd (vadd a b) c = vadd a (vadd b c)"
  by (intro nth_equalityI) (simp_all add: vadd_def add.assoc min.assoc)

lemma length_integrateStepRungeKutta:
  assumes "\<And>v. length (f v) = length v"
  shows "length (fst (integrateStepRungeKutta f dt x)) = length x"
    and "length (snd (integrateStepRungeKutta f dt x)) = length x"
  using assms
  by (simp_all add: integrateStepRungeKutta_def Let_def length_vadd length_smul length_sdiv)

text \<open>
  Claim C1. For a system whose integration method is RUNGE_KUTTA, a step \<open>dt > 0\<close> and
  a state \<open>x\<close> of size \<open>dim\<close>, \<open>integrateStep\<close> evaluates the differential equation \<open>f\<close>
  four times, \<open>k1 = f x\<close>, \<open>k2 = f (x + dt/2 k1)\<close>, \<open>k3 = f (x + dt/2 k2)\<close>,
  \<open>k4 = f (x + dt k3)\<close>, returns \<open>x_updated = x + dt (k1 + 2 k2 + 2 k3 + k4) / 6\<close> and
  returns as \<open>xd_updated\<close> the value of \<open>f\<close> at \<open>x_updated\<close>.
\<close>

theorem integrateStep_RungeKutta:
  assumes "integration_method_m sys = RUNGE_KUTTA"
    and "dt > 0"
    and "int (length x) = dim_m sys"
  shows "integrateStep sys f dt x =
     (let k1 = f x;
          k2 = f (vadd x (smul (dt / 2) k1));
          k3 = f (vadd x (smul (dt / 2) k2));
          k4 = f (vadd x (smul dt k3));
          x_updated =
            vadd x (sdiv (smul dt (vadd (vadd (vadd k1 (smul 2 k2)) (smul 2 k3)) k4)) 6)
      in Inr (x_updated, f x_updated))"
  using assms
  by (simp add: integrateStep_def integrateStepRungeKutta_def Let_def smul_vadd vadd_assoc)

theorem integrateStep_RungeKutta_witness:
  "integration_method_m (example_ExponentialSystem RUNGE_KUTTA) = RUNGE_KUTTA
   \<and> (1/2 :: real) > 0
   \<and> int (length [1::real]) = dim_m (example_ExponentialSystem RUNGE_KUTTA)
   \<and> integrateStep (example_ExponentialSystem RUNGE_KUTTA)
         (differentialEquation (example_ExponentialSystem RUNGE_KUTTA)) (1/2) [1]
       = Inr ([233/384], [- 233/384])"
  using integrateStep_RungeKutta [of "example_ExponentialSystem RUNGE_KUTTA" "1/2" "[1]"
       "differentialEquation (example_ExponentialSystem RUNGE_KUTTA)"]
  by (simp add: example_ExponentialSystem_def differentialEquation_def
        vadd_def vsub_def smul_def sdiv_def Let_def)

text \<open>
  Claim C2. For a system whose integration method is EULER, \<open>integrateStep\<close> first checks
  \<open>dt > 0\<close> and that the size of \<open>x\<close> is \<open>dim\<close>, and fails if either does not hold;
  otherwise it takes the Euler step and returns \<open>x_updated = x + dt f(x)\<close> and
  \<open>xd_updated = f(x)\<close>.
\<close>

theorem integrateStep_Euler:
  assumes "integration_method_m sys = EULER"
  shows "integrateStep sys f dt x =
     (if dt > 0 \<and> int (length x) = dim_m sys
      then Inr (vadd x (smul dt (f x)), f x)
      else Inl AssertionFailed)"
  using assms by (simp add: integrateStep_def integrateStepEuler_def Let_def)

theorem integrateStep_Euler_witness:
  "integration_method_m (example_ExponentialSystem EULER) = EULER
   \<and> integrateStep (example_ExponentialSystem EULER)
         (differentialEquation (example_ExponentialSystem EULER)) (1/2) [1]
       = Inr ([1/2], [- 1])
   \<and> integrateStep (example_ExponentialSystem EULER)
         (differentialEquation (example_ExponentialSystem EULER)) 0 [1]
       = Inl AssertionFailed"
  using integrateStep_Euler [of "example_ExponentialSystem EULER"
       "differentialEquation (example_ExponentialSystem EULER)" "1/2" "[1]"]
    integrateStep_Euler [of "example_ExponentialSystem EULER"
       "differentialEquation (example_ExponentialSystem EULER)" "0" "[1]"]
  by (simp add: example_ExponentialSystem_def differentialEquation_def
        vadd_def vsub_def smul_def sdiv_def Let_def)

section \<open>Properties of the exponential system\<close>

lemma concat_replicate_single: "concat (replicate n [x]) = replicate n x"
  by (induction n) simp_all

lemma coeffs_replicate_rowvector: "coeffs (replicateM (rowvector v) T (Suc 0)) = replicate T v"
  by (simp add: replicateM_def rowvector_def concat_replicate_single)

lemma coeffs_replicate_colvector: "coeffs (replicateM (colvector s) (Suc 0) n) = map (replicate n) s"
  by (simp add: replicateM_def colvector_def concat_replicate_single comp_def)

lemma map2_replicate_rows:
  assumes "length v = n"
  shows "map2 (map2 f) (replicate (length ts) v) (map (\<lambda>x. replicate n (g x)) ts)
           = map (\<lambda>x. map (\<lambda>a. f a (g x)) v) ts"
proof (rule nth_equalityI)
  show "length (map2 (map2 f) (replicate (length ts) v) (map (\<lambda>x. replicate n (g x)) ts))
          = length (map (\<lambda>x. map (\<lambda>a. f a (g x)) v) ts)"
    by simp
next
  fix i
  assume "i < length (map2 (map2 f) (replicate (length ts) v) (map (\<lambda>x. replicate n (g x)) ts))"
  then have i: "i < length ts" by simp
  have "map2 f v (replicate n (g (ts ! i))) = map (\<lambda>a. f a (g (ts ! i))) v"
    using assms by (intro nth_equalityI) simp_all
  with i show "map2 (map2 f) (replicate (length ts) v) (map (\<lambda>x. replicate n (g x)) ts) ! i
          = map (\<lambda>x. map (\<lambda>a. f a (g x)) v) ts ! i"
    by simp
qed

lemma map2_rows_replicate:
  "map2 (map2 f) (map g s) (replicate (length s) w) = map (\<lambda>a. map2 f (g a) w) s"
  by (rule nth_equalityI) simp_all

lemma pos_row:
  assumes "length attr = length init"
  shows "map2 (+) (map (\<lambda>x. x * a) (vsub init attr)) attr
           = map2 (\<lambda>y0 ya. ya + (y0 - ya) * a) init attr"
  using assms by (intro nth_equalityI) (simp_all add: vsub_def)

lemma vel_row:
  assumes "length attr = length init"
  shows "map g (vsub init attr) = map2 (\<lambda>y0 ya. g (y0 - ya)) init attr"
  using assms by (intro nth_equalityI) (simp_all add: vsub_def)

lemma exp_term_eq:
  "map exp (sdiv (smul (- alpha) ts) tau) = map (\<lambda>t. exp (- alpha * t / tau)) ts"
  by (simp add: sdiv_def smul_def comp_def)

lemma analyticalSolution_eq:
  assumes "ts \<noteq> []"
    and "dim_m sys = int (length (initial_state_m sys))"
    and "length (attractor_state_m sys) = length (initial_state_m sys)"
  shows "analyticalSolution sys ts xs xds =
     (let X = \<lparr> rows = length ts, cols = length (initial_state_m sys),
                coeffs = map (\<lambda>t. map2 (\<lambda>y0 ya. ya + (y0 - ya) * exp (- alpha_m sys * t / tau_m sys))
                          (initial_state_m sys) (attractor_state_m sys)) ts \<rparr>;
          Xd = \<lparr> rows = length ts, cols = length (initial_state_m sys),
                 coeffs = map (\<lambda>t. map2 (\<lambda>y0 ya. (y0 - ya) *
                              (- (alpha_m sys / tau_m sys) * exp (- alpha_m sys * t / tau_m sys)))
                          (initial_state_m sys) (attractor_state_m sys)) ts \<rparr>
      in if int (rows xs) = dim_m sys \<and> cols xs = length ts
         then Inr (transposeM X, transposeM Xd)
         else Inr (X, Xd))"
proof -
  let ?v = "vsub (initial_state_m sys) (attractor_state_m sys)"
  let ?e = "map (\<lambda>t. exp (- alpha_m sys * t / tau_m sys)) ts"
  let ?n = "length (initial_state_m sys)"
  have lv: "length ?v = ?n"
    using assms(3) by (simp add: vsub_def)
  have n: "nat (dim_m sys) = length ?v"
    using assms(2) lv by simp
  have X: "coeffs (madd (cwiseProduct (replicateM (rowvector ?v) (length ts) 1)
                   (replicateM (colvector ?e) 1 (nat (dim_m sys))))
             (replicateM (rowvector (attractor_state_m sys)) (length ts) 1))
           = map (\<lambda>t. map2 (\<lambda>y0 ya. ya + (y0 - ya) * exp (- alpha_m sys * t / tau_m sys))
                          (initial_state_m sys) (attractor_state_m sys)) ts"
    by (simp add: madd_def cwiseProduct_def coeffs_replicate_rowvector coeffs_replicate_colvector
          map2_replicate_rows [OF n [symmetric]] map2_rows_replicate pos_row [OF assms(3)] comp_def)
  have Xd: "coeffs (cwiseProduct (replicateM (rowvector ?v) (length ts) 1)
               (replicateM (colvector (smul (- (alpha_m sys / tau_m sys)) ?e)) 1 (nat (dim_m sys))))
           = map (\<lambda>t. map2 (\<lambda>y0 ya. (y0 - ya) *
                              (- (alpha_m sys / tau_m sys) * exp (- alpha_m sys * t / tau_m sys)))
                          (initial_state_m sys) (attractor_state_m sys)) ts"
    by (simp add: cwiseProduct_def coeffs_replicate_rowvector coeffs_replicate_colvector
          map2_replicate_rows [OF n [symmetric]] smul_def vel_row [OF assms(3)] comp_def)
  have shape: "rows (replicateM (rowvector ?v) (length ts) 1) = length ts"
    "cols (replicateM (rowvector ?v) (length ts) 1) = ?n"
    using lv by (simp_all add: replicateM_def rowvector_def)
  have X': "madd (cwiseProduct (replicateM (rowvector ?v) (length ts) 1)
                   (replicateM (colvector ?e) 1 (nat (dim_m sys))))
             (replicateM (rowvector (attractor_state_m sys)) (length ts) 1)
           = \<lparr> rows = length ts, cols = ?n,
                coeffs = map (\<lambda>t. map2 (\<lambda>y0 ya. ya + (y0 - ya) * exp (- alpha_m sys * t / tau_m sys))
                          (initial_state_m sys) (attractor_state_m sys)) ts \<rparr>"
    using X shape by (simp add: madd_def cwiseProduct_def)
  have Xd': "cwiseProduct (replicateM (rowvector ?v) (length ts) 1)
               (replicateM (colvector (smul (- (alpha_m sys / tau_m sys)) ?e)) 1 (nat (dim_m sys)))
           = \<lparr> rows = length ts, cols = ?n,
                 coeffs = map (\<lambda>t. map2 (\<lambda>y0 ya. (y0 - ya) *
                              (- (alpha_m sys / tau_m sys) * exp (- alpha_m sys * t / tau_m sys)))
                          (initial_state_m sys) (attractor_state_m sys)) ts \<rparr>"
    using Xd shape by (simp add: cwiseProduct_def)
  from assms(1) show ?thesis
    unfolding analyticalSolution_def Let_def exp_term_eq X' Xd' by simp
qed


lemma exp_minus_one_sum: "(\<Sum>m<12. (- 1 :: real) ^ m / fact m) = 1468457 / 3991680"
  by (simp add: lessThan_nat_numeral lessThan_Suc fact_numeral eval_nat_numeral)

lemma exp_minus_one_approx: "\<bar>exp (- 1 :: real) - 0.367879\<bar> < 1 / 10 ^ 6"
proof -
  obtain t :: real where t: "\<bar>t\<bar> \<le> \<bar>- 1 :: real\<bar>"
    and e: "exp (- 1 :: real) = (\<Sum>m<12. (- 1) ^ m / fact m) + (exp t / fact 12) * (- 1) ^ 12"
    using Maclaurin_exp_le [of "- 1" 12] by blast
  from t have "t \<le> 1" by simp
  then have "exp t \<le> exp 1" by simp
  then have up: "exp t \<le> 3" using exp_le by linarith
  have lo: "0 < exp t" by simp
  have f12: "fact 12 = (479001600 :: real)"
    by (simp add: fact_numeral)
  from e have e': "exp (- 1 :: real) = 1468457 / 3991680 + exp t / 479001600"
    by (simp only: exp_minus_one_sum f12) simp
  from lo up show ?thesis
    unfolding e' by (simp add: abs_less_iff field_simps)
qed

lemma coeff_transposeM:
  "i < rows m \<Longrightarrow> j < cols m \<Longrightarrow> coeff (transposeM m) j i = coeff m i j"
  by (simp add: transposeM_def coeff_def)

lemma differentialEquation_eq:
  "differentialEquation sys x
     = map2 (\<lambda>ya xi. alpha_m sys * (ya - xi) / tau_m sys) (attractor_state_m sys) x"
  by (intro nth_equalityI) (simp_all add: differentialEquation_def sdiv_def smul_def vsub_def)

text \<open>
  Claim C3. For the exponential system with the parameters \<open>alpha\<close> and \<open>tau\<close>, the
  initial state \<open>y0\<close> and the attractor state \<open>ya\<close>: \<open>differentialEquation\<close> returns
  \<open>alpha (ya - x) / tau\<close> for every state \<open>x\<close>; for every time \<open>t\<close> of \<open>ts\<close>,
  \<open>analyticalSolution\<close> returns \<open>x(t) = ya + (y0 - ya) exp(- alpha t / tau)\<close> and
  \<open>xd(t) = - (alpha / tau) (y0 - ya) exp(- alpha t / tau)\<close>, at row \<open>t\<close> of the result, or
  at column \<open>t\<close> when the caller asked for the transposed shape; and for \<open>alpha = 1\<close>,
  \<open>tau = 1\<close>, \<open>y0 = [1]\<close>, \<open>ya = [0]\<close> the solution at \<open>t = tau\<close> is within \<open>10\<^sup>-\<^sup>6\<close>
  of \<open>0.367879\<close>. The system has the shape its constructor gives it: \<open>dim\<close> is the size of
  the initial state, which is the size of the attractor state.
\<close>

theorem ExponentialSystem_closed_form:
  assumes "dim_m sys = int (length (initial_state_m sys))"
    and "length (attractor_state_m sys) = length (initial_state_m sys)"
    and "ts \<noteq> []"
  shows "differentialEquation sys x
           = map2 (\<lambda>ya xi. alpha_m sys * (ya - xi) / tau_m sys) (attractor_state_m sys) x
    \<and> (\<exists>X Xd. analyticalSolution sys ts xs xds = Inr (X, Xd)
          \<and> (\<forall>t < length ts. \<forall>d < length (initial_state_m sys).
               (if int (rows xs) = dim_m sys \<and> cols xs = length ts
                then coeff X d t else coeff X t d)
                 = attractor_state_m sys ! d
                   + (initial_state_m sys ! d - attractor_state_m sys ! d)
                     * exp (- alpha_m sys * (ts ! t) / tau_m sys)
             \<and> (if int (rows xs) = dim_m sys \<and> cols xs = length ts
                then coeff Xd d t else coeff Xd t d)
                 = - (alpha_m sys / tau_m sys)
                   * (initial_state_m sys ! d - attractor_state_m sys ! d)
                   * exp (- alpha_m sys * (ts ! t) / tau_m sys)))
    \<and> (\<exists>X Xd. analyticalSolution (example_ExponentialSystem im)
                   [tau_m (example_ExponentialSystem im)] xs xds = Inr (X, Xd)
          \<and> \<bar>coeff X 0 0 - 0.367879\<bar> < 1 / 10 ^ 6)"
proof (intro conjI)
  show "differentialEquation sys x
          = map2 (\<lambda>ya xi. alpha_m sys * (ya - xi) / tau_m sys) (attractor_state_m sys) x"
    by (rule differentialEquation_eq)
next
  let ?X = "\<lparr> rows = length ts, cols = length (initial_state_m sys),
                coeffs = map (\<lambda>t. map2 (\<lambda>y0 ya. ya + (y0 - ya) * exp (- alpha_m sys * t / tau_m sys))
                          (initial_state_m sys) (attractor_state_m sys)) ts \<rparr>"
  let ?Xd = "\<lparr> rows = length ts, cols = length (initial_state_m sys),
                 coeffs = map (\<lambda>t. map2 (\<lambda>y0 ya. (y0 - ya) *
                              (- (alpha_m sys / tau_m sys) * exp (- alpha_m sys * t / tau_m sys)))
                          (initial_state_m sys) (attractor_state_m sys)) ts \<rparr>"
  have cX: "coeff ?X t d = attractor_state_m sys ! d
                   + (initial_state_m sys ! d - attractor_state_m sys ! d)
                     * exp (- alpha_m sys * (ts ! t) / tau_m sys)"
    and cXd: "coeff ?Xd t d = - (alpha_m sys / tau_m sys)
                   * (initial_state_m sys ! d - attractor_state_m sys ! d)
                   * exp (- alpha_m sys * (ts ! t) / tau_m sys)"
    if "t < length ts" "d < length (initial_state_m sys)" for t d
    using that assms(2) by (simp_all add: coeff_def)
  have E: "analyticalSolution sys ts xs xds =
      (if int (rows xs) = dim_m sys \<and> cols xs = length ts
       then Inr (transposeM ?X, transposeM ?Xd) else Inr (?X, ?Xd))"
    using analyticalSolution_eq [OF assms(3) assms(1) assms(2), of xs xds]
    unfolding Let_def .
  have tX: "coeff (transposeM ?X) d t = coeff ?X t d"
    and tXd: "coeff (transposeM ?Xd) d t = coeff ?Xd t d"
    if "t < length ts" "d < length (initial_state_m sys)" for t d
    using that by (simp_all add: coeff_transposeM)
  show "\<exists>X Xd. analyticalSolution sys ts xs xds = Inr (X, Xd)
          \<and> (\<forall>t < length ts. \<forall>d < length (initial_state_m sys).
               (if int (rows xs) = dim_m sys \<and> cols xs = length ts
                then coeff X d t else coeff X t d)
                 = attractor_state_m sys ! d
                   + (initial_state_m sys ! d - attractor_state_m sys ! d)
                     * exp (- alpha_m sys * (ts ! t) / tau_m sys)
             \<and> (if int (rows xs) = dim_m sys \<and> cols xs = length ts
                then coeff Xd d t else coeff Xd t d)
                 = - (alpha_m sys / tau_m sys)
                   * (initial_state_m sys ! d - attractor_state_m sys ! d)
                   * exp (- alpha_m sys * (ts ! t) / tau_m sys))"
    (is "\<exists>X Xd. ?P X Xd")
  proof (cases "int (rows xs) = dim_m sys \<and> cols xs = length ts")
    case c: True
    have "analyticalSolution sys ts xs xds = Inr (transposeM ?X, transposeM ?Xd)"
      by (subst E) (rule if_P [OF c])
    then have "?P (transposeM ?X) (transposeM ?Xd)"
      unfolding if_P [OF c] using tX tXd cX cXd by simp
    then show ?thesis by blast
  next
    case c: False
    have "analyticalSolution sys ts xs xds = Inr (?X, ?Xd)"
      by (subst E) (rule if_not_P [OF c])
    then have "?P ?X ?Xd"
      unfolding if_not_P [OF c] using cX cXd by simp
    then show ?thesis by blast
  qed
next
  let ?s = "example_ExponentialSystem im"
  have h: "[tau_m ?s] \<noteq> []" "dim_m ?s = int (length (initial_state_m ?s))"
    "length (attractor_state_m ?s) = length (initial_state_m ?s)"
    by (simp_all add: example_ExponentialSystem_def)
  have "\<exists>X Xd. analyticalSolution ?s [tau_m ?s] xs xds = Inr (X, Xd) \<and> coeff X 0 0 = exp (- 1)"
    using analyticalSolution_eq [OF h, of xs xds]
    by (cases "int (rows xs) = dim_m ?s \<and> cols xs = length [tau_m ?s]")
       (simp_all add: Let_def example_ExponentialSystem_def coeff_def transposeM_def)
  then show "\<exists>X Xd. analyticalSolution ?s [tau_m ?s] xs xds = Inr (X, Xd)
          \<and> \<bar>coeff X 0 0 - 0.367879\<bar> < 1 / 10 ^ 6"
    using exp_minus_one_approx by auto
qed

theorem ExponentialSystem_closed_form_witness:
  "dim_m (example_ExponentialSystem RUNGE_KUTTA)
     = int (length (initial_state_m (example_ExponentialSystem RUNGE_KUTTA)))
   \<and> length (attractor_state_m (example_ExponentialSystem RUNGE_KUTTA))
     = length (initial_state_m (example_ExponentialSystem RUNGE_KUTTA))
   \<and> [0, 1 :: real] \<noteq> []
   \<and> differentialEquation (example_ExponentialSystem RUNGE_KUTTA) [1] = [- 1]
   \<and> (\<exists>X Xd. analyticalSolution (example_ExponentialSystem RUNGE_KUTTA) [0, 1]
                 \<lparr> rows = 0, cols = 0, coeffs = [] \<rparr> \<lparr> rows = 0, cols = 0, coeffs = [] \<rparr>
               = Inr (X, Xd)
         \<and> coeff X 0 0 = 1 \<and> coeff X 1 0 = exp (- 1)
         \<and> coeff Xd 0 0 = - 1 \<and> coeff Xd 1 0 = - exp (- 1))"
proof -
  let ?s = "example_ExponentialSystem RUNGE_KUTTA"
  let ?b = "\<lparr> rows = 0, cols = 0, coeffs = [] \<rparr>"
  have h1: "dim_m ?s = int (length (initial_state_m ?s))"
    and h2: "length (attractor_state_m ?s) = length (initial_state_m ?s)"
    and h3: "[0, 1 :: real] \<noteq> []"
    by (simp_all add: example_ExponentialSystem_def)
  note T = ExponentialSystem_closed_form [OF h1 h2 h3, of "[1]" ?b ?b RUNGE_KUTTA]
  from T have d: "differentialEquation ?s [1] = [- 1]"
    by (simp add: example_ExponentialSystem_def)
  from T [THEN conjunct2, THEN conjunct1] obtain X Xd
    where A: "analyticalSolution ?s [0, 1] ?b ?b = Inr (X, Xd)"
      and B: "\<And>t d. t < 2 \<Longrightarrow> d < 1 \<Longrightarrow>
                coeff X t d = attractor_state_m ?s ! d
                   + (initial_state_m ?s ! d - attractor_state_m ?s ! d)
                     * exp (- alpha_m ?s * ([0, 1] ! t) / tau_m ?s)
              \<and> coeff Xd t d = - (alpha_m ?s / tau_m ?s)
                   * (initial_state_m ?s ! d - attractor_state_m ?s ! d)
                   * exp (- alpha_m ?s * ([0, 1] ! t) / tau_m ?s)"
    by (auto simp: example_ExponentialSystem_def)
  from B [of 0 0] B [of 1 0] have "coeff X 0 0 = 1" "coeff X 1 0 = exp (- 1)"
    "coeff Xd 0 0 = - 1" "coeff Xd 1 0 = - exp (- 1)"
    by (simp_all add: example_ExponentialSystem_def)
  with A h1 h2 h3 d show ?thesis by blast
qed

text \<open>
  Claim C4. For a vector \<open>ts\<close> of \<open>T > 0\<close> times, let \<open>X\<close> and \<open>Xd\<close> be the time-major
  matrices of the solution and of its derivative: \<open>T\<close> rows and \<open>dim\<close> columns, row \<open>t\<close>
  holding \<open>ya + (y0 - ya) exp(- alpha t / tau)\<close> and
  \<open>- (alpha / tau) (y0 - ya) exp(- alpha t / tau)\<close> for each dimension. When the caller's
  \<open>xs\<close> has exactly \<open>dim\<close> rows and \<open>T\<close> columns, \<open>analyticalSolution\<close> returns the
  transposes of \<open>X\<close> and \<open>Xd\<close>, of \<open>dim\<close> rows and \<open>T\<close> columns; for every other shape of
  \<open>xs\<close>, and whatever \<open>xds\<close> is, it returns \<open>X\<close> and \<open>Xd\<close> themselves. The system has
  the shape its constructor gives it.
\<close>

theorem analyticalSolution_orientation:
  assumes "ts \<noteq> []"
    and "dim_m sys = int (length (initial_state_m sys))"
    and "length (attractor_state_m sys) = length (initial_state_m sys)"
  shows "let X = \<lparr> rows = length ts, cols = length (initial_state_m sys),
                   coeffs = map (\<lambda>t. map2 (\<lambda>y0 ya. ya + (y0 - ya) * exp (- alpha_m sys * t / tau_m sys))
                          (initial_state_m sys) (attractor_state_m sys)) ts \<rparr>;
             Xd = \<lparr> rows = length ts, cols = length (initial_state_m sys),
                    coeffs = map (\<lambda>t. map2 (\<lambda>y0 ya. (y0 - ya) *
                              (- (alpha_m sys / tau_m sys) * exp (- alpha_m sys * t / tau_m sys)))
                          (initial_state_m sys) (attractor_state_m sys)) ts \<rparr>
         in (\<forall>xs xds. analyticalSolution sys ts xs xds =
               (if int (rows xs) = dim_m sys \<and> cols xs = length ts
                then Inr (transposeM X, transposeM Xd)
                else Inr (X, Xd)))
          \<and> (rows X = length ts \<and> int (cols X) = dim_m sys
              \<and> length (coeffs X) = length ts \<and> (\<forall>r \<in> set (coeffs X). int (length r) = dim_m sys))
          \<and> (rows Xd = length ts \<and> int (cols Xd) = dim_m sys
              \<and> length (coeffs Xd) = length ts \<and> (\<forall>r \<in> set (coeffs Xd). int (length r) = dim_m sys))
          \<and> (int (rows (transposeM X)) = dim_m sys \<and> cols (transposeM X) = length ts
              \<and> int (length (coeffs (transposeM X))) = dim_m sys
              \<and> (\<forall>r \<in> set (coeffs (transposeM X)). length r = length ts))
          \<and> (int (rows (transposeM Xd)) = dim_m sys \<and> cols (transposeM Xd) = length ts
              \<and> int (length (coeffs (transposeM Xd))) = dim_m sys
              \<and> (\<forall>r \<in> set (coeffs (transposeM Xd)). length r = length ts))
          \<and> (\<forall>t < length ts. \<forall>d < length (initial_state_m sys).
                coeff X t d = attractor_state_m sys ! d
                   + (initial_state_m sys ! d - attractor_state_m sys ! d)
                     * exp (- alpha_m sys * (ts ! t) / tau_m sys)
              \<and> coeff Xd t d = - (alpha_m sys / tau_m sys)
                   * (initial_state_m sys ! d - attractor_state_m sys ! d)
                   * exp (- alpha_m sys * (ts ! t) / tau_m sys)
              \<and> coeff (transposeM X) d t = coeff X t d
              \<and> coeff (transposeM Xd) d t = coeff Xd t d)"
proof -
  let ?X = "\<lparr> rows = length ts, cols = length (initial_state_m sys),
                coeffs = map (\<lambda>t. map2 (\<lambda>y0 ya. ya + (y0 - ya) * exp (- alpha_m sys * t / tau_m sys))
                          (initial_state_m sys) (attractor_state_m sys)) ts \<rparr>"
  let ?Xd = "\<lparr> rows = length ts, cols = length (initial_state_m sys),
                 coeffs = map (\<lambda>t. map2 (\<lambda>y0 ya. (y0 - ya) *
                              (- (alpha_m sys / tau_m sys) * exp (- alpha_m sys * t / tau_m sys)))
                          (initial_state_m sys) (attractor_state_m sys)) ts \<rparr>"
  have E: "\<forall>xs xds. analyticalSolution sys ts xs xds =
      (if int (rows xs) = dim_m sys \<and> cols xs = length ts
       then Inr (transposeM ?X, transposeM ?Xd) else Inr (?X, ?Xd))"
    using analyticalSolution_eq [OF assms] unfolding Let_def by blast
  have sX: "rows ?X = length ts \<and> int (cols ?X) = dim_m sys
              \<and> length (coeffs ?X) = length ts \<and> (\<forall>r \<in> set (coeffs ?X). int (length r) = dim_m sys)"
    and sXd: "rows ?Xd = length ts \<and> int (cols ?Xd) = dim_m sys
              \<and> length (coeffs ?Xd) = length ts \<and> (\<forall>r \<in> set (coeffs ?Xd). int (length r) = dim_m sys)"
    using assms(2,3) by auto
  have tX: "int (rows (transposeM ?X)) = dim_m sys \<and> cols (transposeM ?X) = length ts
              \<and> int (length (coeffs (transposeM ?X))) = dim_m sys
              \<and> (\<forall>r \<in> set (coeffs (transposeM ?X)). length r = length ts)"
    and tXd: "int (rows (transposeM ?Xd)) = dim_m sys \<and> cols (transposeM ?Xd) = length ts
              \<and> int (length (coeffs (transposeM ?Xd))) = dim_m sys
              \<and> (\<forall>r \<in> set (coeffs (transposeM ?Xd)). length r = length ts)"
    using assms(2) by (auto simp: transposeM_def)
  have c: "\<forall>t < length ts. \<forall>d < length (initial_state_m sys).
                coeff ?X t d = attractor_state_m sys ! d
                   + (initial_state_m sys ! d - attractor_state_m sys ! d)
                     * exp (- alpha_m sys * (ts ! t) / tau_m sys)
              \<and> coeff ?Xd t d = - (alpha_m sys / tau_m sys)
                   * (initial_state_m sys ! d - attractor_state_m sys ! d)
                   * exp (- alpha_m sys * (ts ! t) / tau_m sys)
              \<and> coeff (transposeM ?X) d t = coeff ?X t d
              \<and> coeff (transposeM ?Xd) d t = coeff ?Xd t d"
    using assms(3) by (simp add: coeff_transposeM) (simp add: coeff_def)
  show ?thesis
    unfolding Let_def
    apply (insert E sX sXd tX tXd c)
    apply (elim conjE)
    apply (intro conjI)
    apply assumption+
    done
qed

theorem analyticalSolution_orientation_witness:
  "[0, 1 :: real] \<noteq> []
   \<and> dim_m (example_ExponentialSystem RUNGE_KUTTA)
     = int (length (initial_state_m (example_ExponentialSystem RUNGE_KUTTA)))
   \<and> length (attractor_state_m (example_ExponentialSystem RUNGE_KUTTA))
     = length (initial_state_m (example_ExponentialSystem RUNGE_KUTTA))
   \<and> analyticalSolution (example_ExponentialSystem RUNGE_KUTTA) [0, 1]
        \<lparr> rows = 1, cols = 2, coeffs = [[0, 0]] \<rparr> \<lparr> rows = 0, cols = 0, coeffs = [] \<rparr>
      = Inr (\<lparr> rows = 1, cols = 2, coeffs = [[1, exp (- 1)]] \<rparr>,
             \<lparr> rows = 1, cols = 2, coeffs = [[- 1, - exp (- 1)]] \<rparr>)
   \<and> analyticalSolution (example_ExponentialSystem RUNGE_KUTTA) [0, 1]
        \<lparr> rows = 2, cols = 1, coeffs = [[0], [0]] \<rparr> \<lparr> rows = 0, cols = 0, coeffs = [] \<rparr>
      = Inr (\<lparr> rows = 2, cols = 1, coeffs = [[1], [exp (- 1)]] \<rparr>,
             \<lparr> rows = 2, cols = 1, coeffs = [[- 1], [- exp (- 1)]] \<rparr>)
   \<and> analyticalSolution (example_ExponentialSystem RUNGE_KUTTA) [0, 1]
        \<lparr> rows = 0, cols = 0, coeffs = [] \<rparr> \<lparr> rows = 1, cols = 2, coeffs = [[0, 0]] \<rparr>
      = Inr (\<lparr> rows = 2, cols = 1, coeffs = [[1], [exp (- 1)]] \<rparr>,
             \<lparr> rows = 2, cols = 1, coeffs = [[- 1], [- exp (- 1)]] \<rparr>)"
proof -
  let ?s = "example_ExponentialSystem RUNGE_KUTTA"
  have h1: "[0, 1 :: real] \<noteq> []"
    and h2: "dim_m ?s = int (length (initial_state_m ?s))"
    and h3: "length (attractor_state_m ?s) = length (initial_state_m ?s)"
    by (simp_all add: example_ExponentialSystem_def)
  note T = analyticalSolution_orientation [OF h1 h2 h3, unfolded Let_def, THEN conjunct1]
  have "analyticalSolution ?s [0, 1]
        \<lparr> rows = 1, cols = 2, coeffs = [[0, 0]] \<rparr> \<lparr> rows = 0, cols = 0, coeffs = [] \<rparr>
      = Inr (\<lparr> rows = 1, cols = 2, coeffs = [[1, exp (- 1)]] \<rparr>,
             \<lparr> rows = 1, cols = 2, coeffs = [[- 1, - exp (- 1)]] \<rparr>)"
    "analyticalSolution ?s [0, 1]
        \<lparr> rows = 2, cols = 1, coeffs = [[0], [0]] \<rparr> \<lparr> rows = 0, cols = 0, coeffs = [] \<rparr>
      = Inr (\<lparr> rows = 2, cols = 1, coeffs = [[1], [exp (- 1)]] \<rparr>,
             \<lparr> rows = 2, cols = 1, coeffs = [[- 1], [- exp (- 1)]] \<rparr>)"
    "analyticalSolution ?s [0, 1]
        \<lparr> rows = 0, cols = 0, coeffs = [] \<rparr> \<lparr> rows = 1, cols = 2, coeffs = [[0, 0]] \<rparr>
      = Inr (\<lparr> rows = 2, cols = 1, coeffs = [[1], [exp (- 1)]] \<rparr>,
             \<lparr> rows = 2, cols = 1, coeffs = [[- 1], [- exp (- 1)]] \<rparr>)"
    by (simp_all only: T [rule_format])
       (simp_all add: example_ExponentialSystem_def transposeM_def coeff_def)
  with h1 h2 h3 show ?thesis by blast
qed

section \<open>Properties of the polymorphic deserialization\<close>

lemma string_find_npos: "string_find s pat = None \<longleftrightarrow> \<not> sublist pat s"
  by (induction s) (auto simp: sublist_Cons_right)

lemma bindE_Inl: "bindE (Inl e) k = Inl e"
  by (simp add: bindE_def)

lemma bindE_Inr: "bindE (Inr a) k = k a"
  by (simp add: bindE_def)

lemma string_find_found: "string_find s pat \<noteq> None \<longleftrightarrow> sublist pat s"
  by (simp add: string_find_npos)

lemma json_at_py_object:
  "map_of kvs ''py/object'' = Some (JString class_name) \<Longrightarrow>
     bindE (json_at ''py/object'' (JObject kvs)) json_get_string = Inr class_name"
  by (simp add: json_at_def json_get_string_def bindE_Inr)

text \<open>
  Claim C6. For a document whose \<open>py/object\<close> field is a string that contains none of the
  names ExponentialSystem, SigmoidSystem, SpringDamperSystem and TimeSystem, the polymorphic
  deserialization returns normally, the pointer it returns is null, and it has written a
  message naming the unknown class to the error stream.
\<close>

theorem from_json_unknown_class:
  assumes "map_of kvs ''py/object'' = Some (JString class_name)"
    and "\<not> sublist ''ExponentialSystem'' class_name"
    and "\<not> sublist ''SigmoidSystem'' class_name"
    and "\<not> sublist ''SpringDamperSystem'' class_name"
    and "\<not> sublist ''TimeSystem'' class_name"
  shows "from_json_DynamicalSystem from_json_Sigmoid from_json_SpringDamper from_json_Time file
           (JObject kvs)
         = Inr (None, file @ '':153:Unknown DynamicalSystem: '' @ class_name @ [CHR 0x0A])"
  using assms(2-5)
  unfolding from_json_DynamicalSystem_def string_find_found
  by (simp add: json_at_py_object [OF assms(1)] bindE_Inr)

theorem from_json_unknown_class_witness:
  "map_of [(''py/object'', JString ''dynamicalsystems.Pendulum.Pendulum'')] ''py/object''
     = Some (JString ''dynamicalsystems.Pendulum.Pendulum'')
   \<and> \<not> sublist ''ExponentialSystem'' ''dynamicalsystems.Pendulum.Pendulum''
   \<and> \<not> sublist ''SigmoidSystem'' ''dynamicalsystems.Pendulum.Pendulum''
   \<and> \<not> sublist ''SpringDamperSystem'' ''dynamicalsystems.Pendulum.Pendulum''
   \<and> \<not> sublist ''TimeSystem'' ''dynamicalsystems.Pendulum.Pendulum''
   \<and> from_json_DynamicalSystem
         (\<lambda>j. Inr ()) (\<lambda>j. Inr ()) (\<lambda>j. Inr ()) ''DynamicalSystem.cpp''
         (JObject [(''py/object'', JString ''dynamicalsystems.Pendulum.Pendulum'')])
       = Inr (None :: (unit, unit, unit) DynamicalSystemPtr option,
              ''DynamicalSystem.cpp:153:Unknown DynamicalSystem: dynamicalsystems.Pendulum.Pendulum''
                @ [CHR 0x0A])"
proof -
  have h1: "map_of [(''py/object'', JString ''dynamicalsystems.Pendulum.Pendulum'')] ''py/object''
     = Some (JString ''dynamicalsystems.Pendulum.Pendulum'')"
    by simp
  have h2: "\<not> sublist ''ExponentialSystem'' ''dynamicalsystems.Pendulum.Pendulum''"
    and h3: "\<not> sublist ''SigmoidSystem'' ''dynamicalsystems.Pendulum.Pendulum''"
    and h4: "\<not> sublist ''SpringDamperSystem'' ''dynamicalsystems.Pendulum.Pendulum''"
    and h5: "\<not> sublist ''TimeSystem'' ''dynamicalsystems.Pendulum.Pendulum''"
    by code_simp+
  from from_json_unknown_class [OF h1 h2 h3 h4 h5,
      of "\<lambda>j. Inr ()" "\<lambda>j. Inr ()" "\<lambda>j. Inr ()" "''DynamicalSystem.cpp''"]
  have "from_json_DynamicalSystem
         (\<lambda>j. Inr ()) (\<lambda>j. Inr ()) (\<lambda>j. Inr ()) ''DynamicalSystem.cpp''
         (JObject [(''py/object'', JString ''dynamicalsystems.Pendulum.Pendulum'')])
       = Inr (None :: (unit, unit, unit) DynamicalSystemPtr option,
              ''DynamicalSystem.cpp:153:Unknown DynamicalSystem: dynamicalsystems.Pendulum.Pendulum''
                @ [CHR 0x0A])"
    by simp
  with h1 h2 h3 h4 h5 show ?thesis by blast
qed

text \<open>
  Claim C10. The polymorphic deserialization tests whether the \<open>py/object\<close> string contains
  ExponentialSystem, then SigmoidSystem, then SpringDamperSystem, then TimeSystem, and
  builds the object of the first class whose name it contains, whatever other names the
  string contains as well.
\<close>

theorem from_json_first_match:
  assumes "map_of kvs ''py/object'' = Some (JString class_name)"
  shows "from_json_DynamicalSystem from_json_Sigmoid from_json_SpringDamper from_json_Time file
           (JObject kvs)
         = (if sublist ''ExponentialSystem'' class_name then
              bindE (from_json_ExponentialSystem (JObject kvs))
                (\<lambda>obj. Inr (Some (ExponentialSystemPtr obj), []))
            else if sublist ''SigmoidSystem'' class_name then
              bindE (from_json_Sigmoid (JObject kvs)) (\<lambda>obj. Inr (Some (SigmoidSystemPtr obj), []))
            else if sublist ''SpringDamperSystem'' class_name then
              bindE (from_json_SpringDamper (JObject kvs))
                (\<lambda>obj. Inr (Some (SpringDamperSystemPtr obj), []))
            else if sublist ''TimeSystem'' class_name then
              bindE (from_json_Time (JObject kvs)) (\<lambda>obj. Inr (Some (TimeSystemPtr obj), []))
            else Inr (None, file @ '':153:Unknown DynamicalSystem: '' @ class_name @ [CHR 0x0A]))"
  unfolding from_json_DynamicalSystem_def string_find_found
  by (simp add: json_at_py_object [OF assms] bindE_Inr)


theorem from_json_first_match_witness:
  "map_of [(''py/object'', JString ''TimeSystem.ExponentialSystem''),
           (''tau_'', JFloat 1), (''alpha_'', JFloat 1),
           (''initial_state_'', JObject [(''values'', JArray [JFloat 1])]),
           (''attractor_state_'', JObject [(''values'', JArray [JFloat 0])])] ''py/object''
     = Some (JString ''TimeSystem.ExponentialSystem'')
   \<and> sublist ''TimeSystem'' ''TimeSystem.ExponentialSystem''
   \<and> sublist ''ExponentialSystem'' ''TimeSystem.ExponentialSystem''
   \<and> ''TimeSystem.ExponentialSystem'' \<noteq> ''ExponentialSystem''
   \<and> from_json_DynamicalSystem
         (\<lambda>j. Inr ()) (\<lambda>j. Inr ()) (\<lambda>j. Inr ()) ''DynamicalSystem.cpp''
         (JObject [(''py/object'', JString ''TimeSystem.ExponentialSystem''),
           (''tau_'', JFloat 1), (''alpha_'', JFloat 1),
           (''initial_state_'', JObject [(''values'', JArray [JFloat 1])]),
           (''attractor_state_'', JObject [(''values'', JArray [JFloat 0])])])
       = Inr (Some (ExponentialSystemPtr (example_ExponentialSystem RUNGE_KUTTA))
                :: (unit, unit, unit) DynamicalSystemPtr option, [])"
proof -
  let ?kvs = "[(''py/object'', JString ''TimeSystem.ExponentialSystem''),
           (''tau_'', JFloat 1), (''alpha_'', JFloat 1),
           (''initial_state_'', JObject [(''values'', JArray [JFloat 1])]),
           (''attractor_state_'', JObject [(''values'', JArray [JFloat 0])])]"
  have h1: "map_of ?kvs ''py/object'' = Some (JString ''TimeSystem.ExponentialSystem'')"
    by simp
  have h2: "sublist ''TimeSystem'' ''TimeSystem.ExponentialSystem''"
    and h3: "sublist ''ExponentialSystem'' ''TimeSystem.ExponentialSystem''"
    by code_simp+
  have h4: "''TimeSystem.ExponentialSystem'' \<noteq> ''ExponentialSystem''"
    by simp
  have e: "from_json_ExponentialSystem (JObject ?kvs) = Inr (example_ExponentialSystem RUNGE_KUTTA)"
    by (simp add: from_json_ExponentialSystem_def json_at_def bindE_Inr from_json_to_double_def
          VectorXd_from_json_def ExponentialSystem_ctor_def DynamicalSystem_ctor_def
          example_ExponentialSystem_def DynamicalSystem.defs ExponentialSystem.defs)
  from from_json_first_match [OF h1,
      of "\<lambda>j. Inr ()" "\<lambda>j. Inr ()" "\<lambda>j. Inr ()" "''DynamicalSystem.cpp''"] h3
  have "from_json_DynamicalSystem
         (\<lambda>j. Inr ()) (\<lambda>j. Inr ()) (\<lambda>j. Inr ()) ''DynamicalSystem.cpp'' (JObject ?kvs)
       = Inr (Some (ExponentialSystemPtr (example_ExponentialSystem RUNGE_KUTTA))
                :: (unit, unit, unit) DynamicalSystemPtr option, [])"
    by (simp only: if_True e bindE_Inr)
  with h1 h2 h3 h4 show ?thesis by blast
qed

section \<open>Properties of the documents\<close>

lemma doubles_from_json_JFloat: "doubles_from_json (map JFloat v) = Inr v"
  by (induction v) (simp_all add: from_json_to_double_def bindE_Inr)

lemma values_roundtrip:
  "bindE (json_at ''values'' (VectorXd_to_json v)) VectorXd_from_json = Inr v"
  by (simp add: VectorXd_to_json_def json_at_def bindE_Inr VectorXd_from_json_def
        doubles_from_json_JFloat)

lemma to_json_helper_JNull:
  "to_json_helper sys JNull = Inr (JObject
     [(''dim_'', JInt (dim_m sys)),
      (''dim_orig_'', JInt (dim_orig_m sys)),
      (''tau_'', JFloat (tau_m sys)),
      (''initial_state_'', VectorXd_to_json (initial_state_m sys)),
      (''attractor_state_'', VectorXd_to_json (attractor_state_m sys)),
      (''integration_method_'',
         JString (if integration_method_m sys = EULER then ''EULER'' else ''RUNGE_KUTTA'')),
      (''py/object'', JString ''dynamicalsystems.ExponentialSystem.ExponentialSystem''),
      (''alpha_'', JFloat (alpha_m sys))])"
  by (simp add: to_json_helper_def to_json_base_def json_set_def bindE_Inr Let_def)

lemma from_json_ExponentialSystem_document:
  assumes "length y_attr = length y_init"
  shows "from_json_ExponentialSystem (JObject
     [(''dim_'', d), (''dim_orig_'', d'), (''tau_'', JFloat tau),
      (''initial_state_'', VectorXd_to_json y_init),
      (''attractor_state_'', VectorXd_to_json y_attr),
      (''integration_method_'', im), (''py/object'', c), (''alpha_'', JFloat alpha)])
    = Inr \<lparr> dim_m = int (length y_init), dim_orig_m = int (length y_init), tau_m = tau,
            initial_state_m = y_init, attractor_state_m = y_attr,
            integration_method_m = RUNGE_KUTTA, alpha_m = alpha \<rparr>"
proof -
  have a: "json_at ''tau_'' (JObject
     [(''dim_'', d), (''dim_orig_'', d'), (''tau_'', JFloat tau),
      (''initial_state_'', VectorXd_to_json y_init),
      (''attractor_state_'', VectorXd_to_json y_attr),
      (''integration_method_'', im), (''py/object'', c), (''alpha_'', JFloat alpha)]) = Inr (JFloat tau)"
    and b: "json_at ''alpha_'' (JObject
     [(''dim_'', d), (''dim_orig_'', d'), (''tau_'', JFloat tau),
      (''initial_state_'', VectorXd_to_json y_init),
      (''attractor_state_'', VectorXd_to_json y_attr),
      (''integration_method_'', im), (''py/object'', c), (''alpha_'', JFloat alpha)]) = Inr (JFloat alpha)"
    and c: "json_at ''initial_state_'' (JObject
     [(''dim_'', d), (''dim_orig_'', d'), (''tau_'', JFloat tau),
      (''initial_state_'', VectorXd_to_json y_init),
      (''attractor_state_'', VectorXd_to_json y_attr),
      (''integration_method_'', im), (''py/object'', c), (''alpha_'', JFloat alpha)])
        = Inr (VectorXd_to_json y_init)"
    and e: "json_at ''attractor_state_'' (JObject
     [(''dim_'', d), (''dim_orig_'', d'), (''tau_'', JFloat tau),
      (''initial_state_'', VectorXd_to_json y_init),
      (''attractor_state_'', VectorXd_to_json y_attr),
      (''integration_method_'', im), (''py/object'', c), (''alpha_'', JFloat alpha)])
        = Inr (VectorXd_to_json y_attr)"
    by (simp_all add: json_at_def)
  show ?thesis
    unfolding from_json_ExponentialSystem_def a b c e bindE_Inr values_roundtrip
    using assms
    by (simp add: from_json_to_double_def bindE_Inr ExponentialSystem_ctor_def
          DynamicalSystem_ctor_def DynamicalSystem.defs ExponentialSystem.defs)
qed

text \<open>
  The claim C5 as the spec states it fails: a system that integrates with EULER comes back
  from its own document with RUNGE_KUTTA.
\<close>

theorem ExponentialSystem_roundtrip_counterexample:
  "bindE (to_json_helper (example_ExponentialSystem EULER) JNull) from_json_ExponentialSystem
     = Inr (example_ExponentialSystem RUNGE_KUTTA)
   \<and> integration_method_m (example_ExponentialSystem RUNGE_KUTTA)
       \<noteq> integration_method_m (example_ExponentialSystem EULER)"
  unfolding to_json_helper_JNull bindE_Inr
  by (subst from_json_ExponentialSystem_document) (simp_all add: example_ExponentialSystem_def)

text \<open>
  Claim C5, as the code has it. For an exponential system of the shape its constructor gives
  it, with vectors written as \<open>{"values": [...]}\<close>: serializing the system and
  deserializing the document gives a system with the same \<open>dim\<close>, \<open>dim_orig\<close>, \<open>tau\<close>,
  initial state, attractor state and \<open>alpha\<close>. The integration method is written to the
  document, as the string EULER or RUNGE_KUTTA, next to the discriminator, but it is not read
  back: the deserialized system integrates with RUNGE_KUTTA.
\<close>

theorem ExponentialSystem_roundtrip:
  assumes "dim_m sys = int (length (initial_state_m sys))"
    and "dim_orig_m sys = int (length (initial_state_m sys))"
    and "length (attractor_state_m sys) = length (initial_state_m sys)"
  shows "bindE (to_json_helper sys JNull) from_json_ExponentialSystem
           = Inr (sys \<lparr> integration_method_m := RUNGE_KUTTA \<rparr>)
    \<and> bindE (to_json_helper sys JNull) (json_at ''integration_method_'')
           = Inr (JString (if integration_method_m sys = EULER then ''EULER'' else ''RUNGE_KUTTA''))
    \<and> bindE (to_json_helper sys JNull) (json_at ''py/object'')
           = Inr (JString ''dynamicalsystems.ExponentialSystem.ExponentialSystem'')"
proof (intro conjI)
  show "bindE (to_json_helper sys JNull) from_json_ExponentialSystem
           = Inr (sys \<lparr> integration_method_m := RUNGE_KUTTA \<rparr>)"
    unfolding to_json_helper_JNull bindE_Inr
    using assms by (subst from_json_ExponentialSystem_document) simp_all
qed (simp_all add: to_json_helper_JNull bindE_Inr json_at_def)

theorem ExponentialSystem_roundtrip_witness:
  "dim_m (example_ExponentialSystem EULER)
     = int (length (initial_state_m (example_ExponentialSystem EULER)))
   \<and> dim_orig_m (example_ExponentialSystem EULER)
     = int (length (initial_state_m (example_ExponentialSystem EULER)))
   \<and> length (attractor_state_m (example_ExponentialSystem EULER))
     = length (initial_state_m (example_ExponentialSystem EULER))
   \<and> bindE (to_json_helper (example_ExponentialSystem EULER) JNull) from_json_ExponentialSystem
       = Inr \<lparr> dim_m = 1, dim_orig_m = 1, tau_m = 1, initial_state_m = [1],
               attractor_state_m = [0], integration_method_m = RUNGE_KUTTA, alpha_m = 1 \<rparr>
   \<and> bindE (to_json_helper (example_ExponentialSystem EULER) JNull)
         (json_at ''integration_method_'')
       = Inr (JString ''EULER'')"
proof -
  let ?s = "example_ExponentialSystem EULER"
  have h1: "dim_m ?s = int (length (initial_state_m ?s))"
    and h2: "dim_orig_m ?s = int (length (initial_state_m ?s))"
    and h3: "length (attractor_state_m ?s) = length (initial_state_m ?s)"
    by (simp_all add: example_ExponentialSystem_def)
  from ExponentialSystem_roundtrip [OF h1 h2 h3]
  have "bindE (to_json_helper ?s JNull) from_json_ExponentialSystem
       = Inr \<lparr> dim_m = 1, dim_orig_m = 1, tau_m = 1, initial_state_m = [1],
               attractor_state_m = [0], integration_method_m = RUNGE_KUTTA, alpha_m = 1 \<rparr>"
    and "bindE (to_json_helper ?s JNull) (json_at ''integration_method_'')
       = Inr (JString ''EULER'')"
    by (simp_all add: example_ExponentialSystem_def)
  with h1 h2 h3 show ?thesis by blast
qed

section \<open>Properties of the RBFN documents\<close>

lemma to_json_RBFN_JNull:
  "to_json_RBFN to_json_MatrixXd obj JNull = Inr (JObject
     [(''centers_'', to_json_MatrixXd (centers_m obj)),
      (''widths_'', to_json_MatrixXd (widths_m obj)),
      (''weights_'', to_json_MatrixXd (weights_m obj)),
      (''py/object'', JString ''dynamicalsystems.ModelParametersRBFN.ModelParametersRBFN'')])"
  by (simp add: to_json_RBFN_def json_set_def bindE_Inr)

lemma from_jsonpickle_missing_model_params:
  "\<not> json_contains ''_model_params'' (JObject kvs) \<Longrightarrow>
     from_jsonpickle from_json_MatrixXd (JObject kvs) = Inl (json_out_of_range ''_model_params'')"
  by (simp add: from_jsonpickle_def json_contains_def json_at_def bindE_Inl)

text \<open>
  The claim C8 as the spec states it fails: the serialized output of an RBFN with one basis
  function is not accepted by the deserializer.
\<close>

theorem RBFN_roundtrip_counterexample:
  "bindE (to_json_RBFN MatrixXd_to_json example_RBFN JNull) (from_jsonpickle MatrixXd_from_json)
     = Inl (json_out_of_range ''_model_params'')"
  unfolding to_json_RBFN_JNull bindE_Inr
  by (rule from_jsonpickle_missing_model_params) (simp add: json_contains_def)

text \<open>
  Claim C8, as the code has it. Serializing an RBFN function approximator emits a flat
  document: the three matrices under the keys \<open>centers_\<close>, \<open>widths_\<close> and \<open>weights_\<close>,
  and the discriminator under \<open>py/object\<close>. Its deserializer reads the sub-document
  \<open>_model_params\<close> first, which the emitted document does not have: deserializing the
  serialized output of any RBFN fails with the error of a missing key.
\<close>

theorem RBFN_to_json_not_from_jsonpickle:
  "to_json_RBFN to_json_MatrixXd obj JNull = Inr (JObject
     [(''centers_'', to_json_MatrixXd (centers_m obj)),
      (''widths_'', to_json_MatrixXd (widths_m obj)),
      (''weights_'', to_json_MatrixXd (weights_m obj)),
      (''py/object'', JString ''dynamicalsystems.ModelParametersRBFN.ModelParametersRBFN'')])
   \<and> bindE (to_json_RBFN to_json_MatrixXd obj JNull) (from_jsonpickle from_json_MatrixXd)
       = Inl (json_out_of_range ''_model_params'')"
proof
  show "to_json_RBFN to_json_MatrixXd obj JNull = Inr (JObject
     [(''centers_'', to_json_MatrixXd (centers_m obj)),
      (''widths_'', to_json_MatrixXd (widths_m obj)),
      (''weights_'', to_json_MatrixXd (weights_m obj)),
      (''py/object'', JString ''dynamicalsystems.ModelParametersRBFN.ModelParametersRBFN'')])"
    by (rule to_json_RBFN_JNull)
  show "bindE (to_json_RBFN to_json_MatrixXd obj JNull) (from_jsonpickle from_json_MatrixXd)
       = Inl (json_out_of_range ''_model_params'')"
    unfolding to_json_RBFN_JNull bindE_Inr
    by (rule from_jsonpickle_missing_model_params) (simp add: json_contains_def)
qed

text \<open>
  Claim C9 fails on the class that owns a pointer to its model parameters. For a document
  without the key \<open>_model_params\<close>, \<open>from_jsonpickle\<close> leaves the pointer null and passes it
  to the constructor, which dereferences it: no error is reported for the missing key.
\<close>

theorem from_jsonpickle_mp_missing_model_params:
  "from_jsonpickle_mp ModelParametersRBFN_from_jsonpickle getNumberOfBasisFunctions
     (JObject [(''py/object'', JString ''FunctionApproximatorRBFN'')])
   = Inl NullPointerDereference"
  by (simp add: from_jsonpickle_mp_def json_contains_def bindE_Inr
        FunctionApproximatorRBFN_mp_ctor_def)

lemma from_jsonpickle_mp_no_model_params:
  "\<not> json_contains ''_model_params'' j \<Longrightarrow>
     from_jsonpickle_mp ModelParametersRBFN_from_jsonpickle getNumberOfBasisFunctions j
       = Inl NullPointerDereference"
  by (simp add: from_jsonpickle_mp_def bindE_Inr FunctionApproximatorRBFN_mp_ctor_def)

section \<open>Properties of the prediction\<close>

lemma fold_scale_col:
  "fold (\<lambda>b m. scale_col m b (w b)) bs m
     = m \<lparr> coeffs := map (fold (\<lambda>b r. r[b := r ! b * w b]) bs) (coeffs m) \<rparr>"
proof (induction bs arbitrary: m)
  case Nil
  show ?case by (simp add: map_idI)
next
  case (Cons b bs)
  have "fold (\<lambda>b m. scale_col m b (w b)) (b # bs) m
          = fold (\<lambda>b m. scale_col m b (w b)) bs (scale_col m b (w b))"
    by simp
  also have "\<dots> = (scale_col m b (w b))
      \<lparr> coeffs := map (fold (\<lambda>b r. r[b := r ! b * w b]) bs) (coeffs (scale_col m b (w b))) \<rparr>"
    by (rule Cons.IH)
  also have "\<dots> = m \<lparr> coeffs := map (fold (\<lambda>b r. r[b := r ! b * w b]) (b # bs)) (coeffs m) \<rparr>"
    by (simp add: scale_col_def comp_def)
  finally show ?case .
qed

lemma fold_scale_row:
  "k \<le> length r \<Longrightarrow>
     fold (\<lambda>b r. r[b := r ! b * w b]) [0..<k] r
       = map (\<lambda>b. if b < k then r ! b * w b else r ! b) [0..<length r]"
proof (induction k)
  case 0
  show ?case by (simp add: map_nth)
next
  case (Suc k)
  then have IH: "fold (\<lambda>b r. r[b := r ! b * w b]) [0..<k] r
       = map (\<lambda>b. if b < k then r ! b * w b else r ! b) [0..<length r]"
    and k: "k < length r"
    by simp_all
  show ?case
    using k by (intro nth_equalityI) (simp_all add: IH nth_list_update less_Suc_eq)
qed

lemma sum_list_fold_scale_row:
  "fold (\<lambda>b r. r[b := r ! b * w b]) [0..<length r] r = map (\<lambda>b. r ! b * w b) [0..<length r]"
  using fold_scale_row [of "length r" r w] by simp

lemma activations_row:
  "coeffs (activations centers widths inputs False)
     = map (\<lambda>t. map (\<lambda>b. exp (- 0.5 * (\<Sum>d \<leftarrow> [0..<cols centers].
                        ((coeff inputs t d - coeff centers b d) / coeff widths b d)\<^sup>2)))
                    [0..<rows centers]) [0..<rows inputs]"
  by (simp add: activations_def Let_def)

lemma predict_eq:
  assumes "n_basis_functions_m fa = int (rows (centers_m fa))"
  shows "predict fa inputs =
     \<lparr> rows = rows inputs, cols = 1,
       coeffs = map (\<lambda>t. [\<Sum>b \<leftarrow> [0..<rows (centers_m fa)].
                  coeff (activations (centers_m fa) (widths_m fa) inputs False) t b
                    * coeff_linear (weights_m fa) b]) [0..<rows inputs] \<rparr>"
proof -
  let ?A = "activations (centers_m fa) (widths_m fa) inputs False"
  let ?n = "rows (centers_m fa)"
  let ?w = "coeff_linear (weights_m fa)"
  have p: "predict fa inputs = rowwise_sum (fold (\<lambda>b m. scale_col m b (?w b)) [0..<?n] ?A)"
    using assms by (simp add: predict_def Let_def)
  have rc: "rows ?A = rows inputs"
    by (simp add: activations_def Let_def)
  have len: "length r = ?n" if "r \<in> set (coeffs ?A)" for r
    using that by (auto simp: activations_row)
  have row: "fold (\<lambda>b r. r[b := r ! b * ?w b]) [0..<?n] r = map (\<lambda>b. r ! b * ?w b) [0..<?n]"
    if "r \<in> set (coeffs ?A)" for r
    using sum_list_fold_scale_row [of ?w r] len [OF that] by simp
  have "coeffs (rowwise_sum (fold (\<lambda>b m. scale_col m b (?w b)) [0..<?n] ?A))
          = map (\<lambda>r. [\<Sum>b \<leftarrow> [0..<?n]. r ! b * ?w b]) (coeffs ?A)"
    using row by (simp add: rowwise_sum_def fold_scale_col comp_def)
  also have "\<dots> = map (\<lambda>t. [\<Sum>b \<leftarrow> [0..<?n]. coeff ?A t b * ?w b]) [0..<rows inputs]"
    by (intro nth_equalityI) (simp_all add: activations_row coeff_def)
  finally show ?thesis
    using rc by (simp add: p rowwise_sum_def fold_scale_col)
qed


lemma coeff_activations:
  "t < rows inputs \<Longrightarrow> b < rows centers \<Longrightarrow>
     coeff (activations centers widths inputs False) t b
       = exp (- 0.5 * (\<Sum>d \<leftarrow> [0..<cols centers].
                        ((coeff inputs t d - coeff centers b d) / coeff widths b d)\<^sup>2))"
  by (simp add: coeff_def activations_row)

lemma FunctionApproximatorRBFN_ctor_Inr:
  assumes "FunctionApproximatorRBFN_ctor centers widths weights = Inr fa"
  shows "n_basis_functions_m fa = int (rows centers)" "centers_m fa = centers"
    "widths_m fa = widths" "weights_m fa = weights"
    "rows weights = rows centers" "cols weights = 1"
  using assms
  by (auto simp: FunctionApproximatorRBFN_ctor_def Let_def split: if_splits)

text \<open>
  Claim C7. For an RBFN built from \<open>centers\<close>, \<open>widths\<close> and \<open>weights\<close>, and row \<open>t\<close> of a
  matrix of inputs: \<open>predict\<close> on the matrix made of that one row returns the single output
  \<open>S\<close>, \<open>predict\<close> on the whole matrix returns a column with one output for each row and
  the same \<open>S\<close> at row \<open>t\<close>, and \<open>S\<close> is the sum over the basis functions \<open>b\<close> of
  \<open>activations[t][b] weights[b]\<close>.
\<close>

theorem predict_single_row_equals_batch_row:
  assumes "FunctionApproximatorRBFN_ctor centers widths weights = Inr fa"
    and "t < rows inputs"
  shows "let S = (\<Sum>b < rows centers.
                    coeff (activations centers widths inputs False) t b * coeff weights b 0)
         in predict fa \<lparr> rows = 1, cols = cols inputs, coeffs = [coeffs inputs ! t] \<rparr>
              = \<lparr> rows = 1, cols = 1, coeffs = [[S]] \<rparr>
          \<and> rows (predict fa inputs) = rows inputs
          \<and> cols (predict fa inputs) = 1
          \<and> coeffs (predict fa inputs) ! t = [S]"
proof -
  note c = FunctionApproximatorRBFN_ctor_Inr [OF assms(1)]
  let ?one = "\<lparr> rows = 1, cols = cols inputs, coeffs = [coeffs inputs ! t] \<rparr>"
  let ?S = "\<Sum>b < rows centers.
              coeff (activations centers widths inputs False) t b * coeff weights b 0"
  have w: "coeff_linear weights b = coeff weights b 0" if "b < rows centers" for b
    using that c(5) by (simp add: coeff_linear_def)
  have one: "coeff (activations centers widths ?one False) 0 b
               = coeff (activations centers widths inputs False) t b" if "b < rows centers" for b
    using that assms(2) by (simp add: coeff_activations) (simp add: coeff_def)
  have S1: "(\<Sum>b \<leftarrow> [0..<rows centers].
               coeff (activations centers widths ?one False) 0 b * coeff_linear weights b) = ?S"
    using w one by (simp add: interv_sum_list_conv_sum_set_nat atLeast0LessThan)
  have S2: "(\<Sum>b \<leftarrow> [0..<rows centers].
               coeff (activations centers widths inputs False) t b * coeff_linear weights b) = ?S"
    using w by (simp add: interv_sum_list_conv_sum_set_nat atLeast0LessThan)
  have p1: "predict fa ?one = \<lparr> rows = 1, cols = 1, coeffs = [[?S]] \<rparr>"
    using predict_eq [of fa ?one] c(1-4) S1 by simp
  have p2: "rows (predict fa inputs) = rows inputs" "cols (predict fa inputs) = 1"
    "coeffs (predict fa inputs) ! t = [?S]"
    using predict_eq [of fa inputs] c(1-4) S2 assms(2) by simp_all
  from p1 p2 show ?thesis by (simp add: Let_def)
qed

theorem predict_single_row_equals_batch_row_witness:
  "FunctionApproximatorRBFN_ctor
       \<lparr> rows = 1, cols = 1, coeffs = [[0]] \<rparr> \<lparr> rows = 1, cols = 1, coeffs = [[1]] \<rparr>
       \<lparr> rows = 1, cols = 1, coeffs = [[2]] \<rparr>
     = Inr \<lparr> n_basis_functions_m = 1,
             centers_m = \<lparr> rows = 1, cols = 1, coeffs = [[0]] \<rparr>,
             widths_m = \<lparr> rows = 1, cols = 1, coeffs = [[1]] \<rparr>,
             weights_m = \<lparr> rows = 1, cols = 1, coeffs = [[2]] \<rparr> \<rparr>
   \<and> (0 :: nat) < rows \<lparr> rows = 2, cols = 1, coeffs = [[0], [1]] \<rparr>
   \<and> predict \<lparr> n_basis_functions_m = 1,
             centers_m = \<lparr> rows = 1, cols = 1, coeffs = [[0]] \<rparr>,
             widths_m = \<lparr> rows = 1, cols = 1, coeffs = [[1]] \<rparr>,
             weights_m = \<lparr> rows = 1, cols = 1, coeffs = [[2]] \<rparr> \<rparr>
         \<lparr> rows = 1, cols = 1, coeffs = [[0]] \<rparr>
       = \<lparr> rows = 1, cols = 1, coeffs = [[2]] \<rparr>
   \<and> coeffs (predict \<lparr> n_basis_functions_m = 1,
             centers_m = \<lparr> rows = 1, cols = 1, coeffs = [[0]] \<rparr>,
             widths_m = \<lparr> rows = 1, cols = 1, coeffs = [[1]] \<rparr>,
             weights_m = \<lparr> rows = 1, cols = 1, coeffs = [[2]] \<rparr> \<rparr>
         \<lparr> rows = 2, cols = 1, coeffs = [[0], [1]] \<rparr>) ! 0 = [2]"
proof -
  let ?c = "\<lparr> rows = 1, cols = 1, coeffs = [[0]] \<rparr>"
  let ?w = "\<lparr> rows = 1, cols = 1, coeffs = [[1]] \<rparr>"
  let ?ws = "\<lparr> rows = 1, cols = 1, coeffs = [[2]] \<rparr>"
  let ?fa = "\<lparr> n_basis_functions_m = 1, centers_m = ?c, widths_m = ?w, weights_m = ?ws \<rparr>"
  let ?in = "\<lparr> rows = 2, cols = 1, coeffs = [[0], [1]] \<rparr>"
  have h1: "FunctionApproximatorRBFN_ctor ?c ?w ?ws = Inr ?fa"
    by (simp add: FunctionApproximatorRBFN_ctor_def)
  have h2: "(0 :: nat) < rows ?in"
    by simp
  have S: "(\<Sum>b < rows ?c. coeff (activations ?c ?w ?in False) 0 b * coeff ?ws b 0) = 2"
    by (simp add: coeff_activations) (simp add: coeff_def)
  from predict_single_row_equals_batch_row [OF h1 h2]
  have "predict ?fa \<lparr> rows = 1, cols = 1, coeffs = [[0]] \<rparr> = \<lparr> rows = 1, cols = 1, coeffs = [[2]] \<rparr>"
    and "coeffs (predict ?fa ?in) ! 0 = [2]"
    unfolding Let_def S by simp_all
  with h1 h2 show ?thesis by blast
qed

end
